theory Spec2Isabelle
  imports Complex_Main "HOL-Library.Word"
begin

section \<open>GRand: a wrapper around the C++ standard library's random numbers\<close>

text \<open>
  The class \<^verbatim>\<open>GRand\<close> of \<^verbatim>\<open>grand.h\<close> holds a flag \<^verbatim>\<open>_seed_needed\<close> and an engine
  \<^verbatim>\<open>_rng\<close> of type \<^verbatim>\<open>std::mt19937\<close>. Every member function is a few lines that test
  the flag, compare the argument with a constant and forward to \<^verbatim>\<open><random>\<close>.
  The standard library is not part of the repository: the engine, its seeding and the
  three distributions are parameters of the model (the record \<open>stdlib\<close>). The code
  hands its arguments to them and returns what they return, with no test of its own in
  between, and so does the model. What the C++ standard promises of the integer
  distribution and of the engine's seeding is stated as predicates (\<open>uniform_int_ok\<close>,
  \<open>seed_ok\<close>) that a theorem assumes where it needs them.
\<close>

subsection \<open>Values of type double\<close>

text \<open>
  The code compares a \<^verbatim>\<open>double\<close> with the literals \<^verbatim>\<open>0.0\<close> and \<^verbatim>\<open>1.0\<close> and negates it;
  all three are exact in IEEE 754, so a double is modelled by the real number it denotes,
  or one of the two infinities, or a NaN. The two zeros compare equal and are one value
  here. Every comparison with a NaN is false. The arithmetic of the library, which rounds,
  is the library's: the model computes no sample itself.
\<close>

datatype double = Fin real | PInf | NInf | NaN

fun dlt :: "double \<Rightarrow> double \<Rightarrow> bool" where
  "dlt (Fin x) (Fin y) = (x < y)"
| "dlt (Fin x) PInf = True"
| "dlt NInf (Fin y) = True"
| "dlt NInf PInf = True"
| "dlt _ _ = False"

fun dle :: "double \<Rightarrow> double \<Rightarrow> bool" where
  "dle (Fin x) (Fin y) = (x \<le> y)"
| "dle (Fin x) PInf = True"
| "dle NInf (Fin y) = True"
| "dle NInf PInf = True"
| "dle NInf NInf = True"
| "dle PInf PInf = True"
| "dle NaN _ = False"
| "dle _ NaN = False"
| "dle _ NInf = False"
| "dle PInf (Fin y) = False"

fun dneg :: "double \<Rightarrow> double" where
  "dneg (Fin x) = Fin (- x)"
| "dneg PInf = NInf"
| "dneg NInf = PInf"
| "dneg NaN = NaN"

subsection \<open>The standard library, as a parameter\<close>

text \<open>
  \<open>'g\<close> is the state of \<^verbatim>\<open>std::mt19937\<close>. Its \<^verbatim>\<open>result_type\<close> is \<^verbatim>\<open>uint_fast32_t\<close>, an
  unsigned type of 32 bits or more; the engine's word size is 32, so that it produces
  values below \<open>2 ^ 32\<close> and seeds itself from the seed modulo \<open>2 ^ 32\<close>
  (C++11 26.5.3.2): a value of \<^verbatim>\<open>result_type\<close> is modelled as a \<open>32 word\<close>.
  A distribution object is a temporary built at each call, so a
  distribution is a function of its parameters and the engine, returning the sample and
  the engine it leaves behind. \<open>'n\<close> is the integer type \<^verbatim>\<open>IntType\<close> at which
  \<^verbatim>\<open>uniform_int_distribution\<close> is instantiated: \<open>32 word\<close> for \<^verbatim>\<open>int\<close>, the instance
  member \<^verbatim>\<open>i\<close> uses.
\<close>

record ('g, 'n) stdlib =
  mt_default :: 'g
  mt_ctor :: "32 word \<Rightarrow> 'g"
  mt_seed :: "32 word \<Rightarrow> 'g \<Rightarrow> 'g"
  mt_next :: "'g \<Rightarrow> 32 word \<times> 'g"
  mt_min :: "32 word"
  mt_max :: "32 word"
  uniform_int_distribution :: "'n \<Rightarrow> 'n \<Rightarrow> 'g \<Rightarrow> 'n \<times> 'g"
  uniform_real_distribution :: "double \<Rightarrow> double \<Rightarrow> 'g \<Rightarrow> double \<times> 'g"
  bernoulli_distribution :: "double \<Rightarrow> 'g \<Rightarrow> bool \<times> 'g"

text \<open>
  A call fails in one way: \<^verbatim>\<open>std::random_device\<close> throws where no entropy source is
  available (the comment above \<^verbatim>\<open>ck_seed\<close> speaks of crashes in such environments).
\<close>

datatype error = Entropy_unavailable

text \<open>What the standard promises of the library, where a theorem needs it.\<close>

definition uniform_int_ok :: "('g, 'a::len word) stdlib \<Rightarrow> bool" where
  "uniform_int_ok L =
     (\<forall>a b g. sint a \<le> sint b \<longrightarrow>
        sint a \<le> sint (fst (uniform_int_distribution L a b g)) \<and>
        sint (fst (uniform_int_distribution L a b g)) \<le> sint b)"

definition seed_ok :: "('g, 'n) stdlib \<Rightarrow> bool" where
  "seed_ok L = (\<forall>s g. mt_seed L s g = mt_ctor L s)"

subsection \<open>The entropy source\<close>

text \<open>
  \<^verbatim>\<open>std::random_device()()\<close> reads the environment. The environment is the sequence of
  what its calls will answer (\<open>None\<close>: the call throws) and the number of calls made so
  far; a call answers and counts itself.
\<close>

record env =
  entropy :: "nat \<Rightarrow> 32 word option"
  calls :: nat

definition random_device :: "env \<Rightarrow> (error + 32 word) \<times> env" where
  "random_device e =
     (case entropy e (calls e) of
        None \<Rightarrow> (Inl Entropy_unavailable, e\<lparr>calls := Suc (calls e)\<rparr>)
      | Some w \<Rightarrow> (Inr w, e\<lparr>calls := Suc (calls e)\<rparr>))"

subsection \<open>The class\<close>

record 'g GRand =
  seed_needed :: bool
  rng :: 'g

text \<open>
  A member function takes the object and the environment and returns its result, or the
  error that ended it, with the object and the environment as it leaves them.
\<close>

type_synonym 'g state = "'g GRand \<times> env"

text \<open>The default constructor (lines 73-76) and the constructor from a number (84-88).\<close>

definition GRand_default :: "('g, 'n) stdlib \<Rightarrow> 'g GRand" where
  "GRand_default L = \<lparr>seed_needed = True, rng = mt_default L\<rparr>"

text \<open>
  \<^verbatim>\<open>rng_type::result_type(s)\<close> converts an integer \<open>s\<close> of any integral type to an
  unsigned type, its value modulo a power of two: with the engine's reduction modulo
  \<open>2 ^ 32\<close>, the seed is \<open>word_of_int s\<close>.
\<close>

definition GRand_from :: "('g, 'n) stdlib \<Rightarrow> int \<Rightarrow> 'g GRand" where
  "GRand_from L s = \<lparr>seed_needed = False, rng = mt_ctor L (word_of_int s)\<rparr>"

text \<open>\<^verbatim>\<open>seed()\<close> (lines 97-98) and \<^verbatim>\<open>seed(s)\<close> (106-111).\<close>

definition GRand_seed :: "'g state \<Rightarrow> (error + unit) \<times> 'g state" where
  "GRand_seed st = (case st of (x, e) \<Rightarrow> (Inr (), x\<lparr>seed_needed := True\<rparr>, e))"

definition GRand_seed_with ::
  "('g, 'n) stdlib \<Rightarrow> int \<Rightarrow> 'g state \<Rightarrow> (error + unit) \<times> 'g state" where
  "GRand_seed_with L s st =
     (case st of (x, e) \<Rightarrow>
        (Inr (), x\<lparr>seed_needed := False, rng := mt_seed L (word_of_int s) (rng x)\<rparr>, e))"

text \<open>
  \<^verbatim>\<open>ck_seed\<close> (lines 207-213) clears the flag before it asks for entropy: when
  \<^verbatim>\<open>random_device\<close> throws, the flag is already false and the engine is as it was.
\<close>

definition ck_seed ::
  "('g, 'n) stdlib \<Rightarrow> 'g state \<Rightarrow> (error + unit) \<times> 'g state" where
  "ck_seed L st =
     (case st of (x, e) \<Rightarrow>
        if \<not> seed_needed x then (Inr (), x, e)
        else
          (case random_device e of
             (Inl err, e') \<Rightarrow> (Inl err, x\<lparr>seed_needed := False\<rparr>, e')
           | (Inr w, e') \<Rightarrow>
               (Inr (), x\<lparr>seed_needed := False, rng := mt_seed L w (rng x)\<rparr>, e')))"

text \<open>
  The one-argument \<^verbatim>\<open>operator()\<close> (lines 181-190) is a template over the integer type
  \<^verbatim>\<open>IntType\<close>. \<open>GRand_call\<close> is its instance at a signed type of any width, where
  \<^verbatim>\<open>n <= IntType(0)\<close> compares two's complement values; \<open>GRand_call_unsigned\<close> is its
  instance at an unsigned type, where the same test compares unsigned values. \<open>n - 1\<close> is
  computed only for \<open>n > 0\<close> and does not wrap. The member \<^verbatim>\<open>i\<close> (lines 116-117) is the
  instance at \<^verbatim>\<open>int\<close>.
\<close>

definition GRand_call ::
  "('g, 'a::len word) stdlib \<Rightarrow> 'a word \<Rightarrow> 'g state \<Rightarrow> (error + 'a word) \<times> 'g state" where
  "GRand_call L n st =
     (case ck_seed L st of
        (Inl err, st') \<Rightarrow> (Inl err, st')
      | (Inr u, x, e) \<Rightarrow>
          if sint n \<le> 0 then (Inr 0, x, e)
          else
            (case uniform_int_distribution L 0 (n - 1) (rng x) of
               (v, g') \<Rightarrow> (Inr v, x\<lparr>rng := g'\<rparr>, e)))"

definition GRand_call_unsigned ::
  "('g, 'a::len word) stdlib \<Rightarrow> 'a word \<Rightarrow> 'g state \<Rightarrow> (error + 'a word) \<times> 'g state" where
  "GRand_call_unsigned L n st =
     (case ck_seed L st of
        (Inl err, st') \<Rightarrow> (Inl err, st')
      | (Inr u, x, e) \<Rightarrow>
          if n \<le> 0 then (Inr 0, x, e)
          else
            (case uniform_int_distribution L 0 (n - 1) (rng x) of
               (v, g') \<Rightarrow> (Inr v, x\<lparr>rng := g'\<rparr>, e)))"

definition GRand_i ::
  "('g, 32 word) stdlib \<Rightarrow> 32 word \<Rightarrow> 'g state \<Rightarrow> (error + 32 word) \<times> 'g state" where
  "GRand_i L n st = GRand_call L n st"

text \<open>
  The members \<^verbatim>\<open>d\<close> (lines 123-132) and \<^verbatim>\<open>b\<close> (lines 137-143). The comparisons are
  those of the source, in its order; whatever passes them goes to the library, and the
  library's sample is returned as it is (negated, for a negative bound).
\<close>

definition GRand_d ::
  "('g, 'n) stdlib \<Rightarrow> double \<Rightarrow> 'g state \<Rightarrow> (error + double) \<times> 'g state" where
  "GRand_d L d st =
     (case ck_seed L st of
        (Inl err, st') \<Rightarrow> (Inl err, st')
      | (Inr u, x, e) \<Rightarrow>
          if dlt (Fin 0) d then
            (case uniform_real_distribution L (Fin 0) d (rng x) of
               (v, g') \<Rightarrow> (Inr v, x\<lparr>rng := g'\<rparr>, e))
          else if dlt d (Fin 0) then
            (case uniform_real_distribution L (Fin 0) (dneg d) (rng x) of
               (v, g') \<Rightarrow> (Inr (dneg v), x\<lparr>rng := g'\<rparr>, e))
          else (Inr (Fin 0), x, e))"

definition GRand_b ::
  "('g, 'n) stdlib \<Rightarrow> double \<Rightarrow> 'g state \<Rightarrow> (error + bool) \<times> 'g state" where
  "GRand_b L p st =
     (case ck_seed L st of
        (Inl err, st') \<Rightarrow> (Inl err, st')
      | (Inr u, x, e) \<Rightarrow>
          if dle p (Fin 0) then (Inr False, x, e)
          else if dle (Fin 1) p then (Inr True, x, e)
          else
            (case bernoulli_distribution L p (rng x) of
               (v, g') \<Rightarrow> (Inr v, x\<lparr>rng := g'\<rparr>, e)))"

text \<open>\<^verbatim>\<open>min()\<close>, \<^verbatim>\<open>max()\<close> and the zero-argument \<^verbatim>\<open>operator()\<close> (lines 158-170).\<close>

definition GRand_min :: "('g, 'n) stdlib \<Rightarrow> 32 word" where
  "GRand_min L = mt_min L"

definition GRand_max :: "('g, 'n) stdlib \<Rightarrow> 32 word" where
  "GRand_max L = mt_max L"

definition GRand_call0 ::
  "('g, 'n) stdlib \<Rightarrow> 'g state \<Rightarrow> (error + 32 word) \<times> 'g state" where
  "GRand_call0 L st =
     (case ck_seed L st of
        (Inl err, st') \<Rightarrow> (Inl err, st')
      | (Inr u, x, e) \<Rightarrow>
          (case mt_next L (rng x) of (v, g') \<Rightarrow> (Inr v, x\<lparr>rng := g'\<rparr>, e)))"

text \<open>
  The lazy seeding succeeds in a state where no seed is pending, or where the next call
  of \<^verbatim>\<open>random_device\<close> answers.
\<close>

definition seed_ready :: "'g state \<Rightarrow> bool" where
  "seed_ready st = (case st of (x, e) \<Rightarrow> seed_needed x = False \<or> entropy e (calls e) \<noteq> None)"

subsection \<open>Sequences of calls\<close>

text \<open>
  A client of the class calls its member functions one after the other. \<open>run\<close> is such
  a client: it performs the calls of a list in order and collects what each returned (a
  client that catches the exception of a failed call goes on; one that does not has seen
  the results up to the first \<open>Inl\<close>). Its integer calls are at \<^verbatim>\<open>int\<close>.
\<close>

datatype call = Seed | Seed_with int | I "32 word" | D double | B double | Call0 | Call "32 word"

datatype val = V_unit | V_int "32 word" | V_double double | V_bool bool | V_word "32 word"

fun is_sampling :: "call \<Rightarrow> bool" where
  "is_sampling Seed = False"
| "is_sampling (Seed_with s) = False"
| "is_sampling _ = True"

fun is_seed_with :: "call \<Rightarrow> bool" where
  "is_seed_with (Seed_with s) = True"
| "is_seed_with _ = False"

definition ret :: "('a \<Rightarrow> val) \<Rightarrow> (error + 'a) \<times> 's \<Rightarrow> (error + val) \<times> 's" where
  "ret f r = (case r of (Inl err, st) \<Rightarrow> (Inl err, st) | (Inr v, st) \<Rightarrow> (Inr (f v), st))"

fun step :: "('g, 32 word) stdlib \<Rightarrow> call \<Rightarrow> 'g state \<Rightarrow> (error + val) \<times> 'g state" where
  "step L Seed st = ret (\<lambda>u. V_unit) (GRand_seed st)"
| "step L (Seed_with s) st = ret (\<lambda>u. V_unit) (GRand_seed_with L s st)"
| "step L (I n) st = ret V_int (GRand_i L n st)"
| "step L (D d) st = ret V_double (GRand_d L d st)"
| "step L (B p) st = ret V_bool (GRand_b L p st)"
| "step L Call0 st = ret V_word (GRand_call0 L st)"
| "step L (Call n) st = ret V_int (GRand_call L n st)"

fun run :: "('g, 32 word) stdlib \<Rightarrow> call list \<Rightarrow> 'g state \<Rightarrow> (error + val) list \<times> 'g state" where
  "run L [] st = ([], st)"
| "run L (c # cs) st =
     (case step L c st of (r, st1) \<Rightarrow>
        (case run L cs st1 of (rs, st2) \<Rightarrow> (r # rs, st2)))"

text \<open>
  An engine is seeded when it was built from a seed or reseeded, and then advanced by the
  library any number of times. The default-constructed engine (the spec's "library-default
  state") is not.
\<close>

inductive seeded :: "('g, 'n) stdlib \<Rightarrow> 'g \<Rightarrow> bool" for L :: "('g, 'n) stdlib" where
  seeded_ctor: "seeded L (mt_ctor L w)"
| seeded_seed: "seeded L (mt_seed L w g)"
| seeded_next: "seeded L g \<Longrightarrow> seeded L (snd (mt_next L g))"
| seeded_int: "seeded L g \<Longrightarrow> seeded L (snd (uniform_int_distribution L a b g))"
| seeded_real: "seeded L g \<Longrightarrow> seeded L (snd (uniform_real_distribution L c d g))"
| seeded_bernoulli: "seeded L g \<Longrightarrow> seeded L (snd (bernoulli_distribution L p g))"

code_pred seeded .

subsection \<open>A small library to run the model on\<close>

text \<open>
  An instance of \<open>stdlib\<close> for the examples, at \<^verbatim>\<open>int\<close>: a linear congruential engine
  on 32-bit words, and distributions that scale its next output into the range asked
  for. It is not \<^verbatim>\<open>std::mt19937\<close>; the theorems hold of every library, the examples run
  on this one.
\<close>

definition lcg_next :: "32 word \<Rightarrow> 32 word" where
  "lcg_next g = g * 1664525 + 1013904223"

definition lcg_unit :: "32 word \<Rightarrow> real" where
  "lcg_unit g = real (unat g) / 4294967296"

definition lcg_int :: "32 word \<Rightarrow> 32 word \<Rightarrow> 32 word \<Rightarrow> 32 word \<times> 32 word" where
  "lcg_int a b g =
     (let c = lcg_next g; v = a + c mod (b - a + 1)
      in if sint a \<le> sint v \<and> sint v \<le> sint b then (v, c) else (a, c))"

text \<open>
  The real distribution computes \<open>u * (b - a) + a\<close> for the engine's next output scaled
  to \<open>u\<close> in \<open>[0, 1)\<close>, as the usual implementations do, here without rounding. With
  \<open>a\<close> finite and \<open>b = +\<infinity>\<close> that is \<open>+\<infinity>\<close>, or a NaN when \<open>u = 0\<close>.
\<close>

definition lcg_real :: "double \<Rightarrow> double \<Rightarrow> 32 word \<Rightarrow> double \<times> 32 word" where
  "lcg_real a b g =
     (case (a, b) of
        (Fin x, Fin y) \<Rightarrow> (Fin (x + (y - x) * lcg_unit (lcg_next g)), lcg_next g)
      | (Fin x, PInf) \<Rightarrow> (if lcg_unit (lcg_next g) = 0 then NaN else PInf, lcg_next g)
      | _ \<Rightarrow> (NaN, lcg_next g))"

definition lcg_bernoulli :: "double \<Rightarrow> 32 word \<Rightarrow> bool \<times> 32 word" where
  "lcg_bernoulli p g = (dlt (Fin (lcg_unit (lcg_next g))) p, lcg_next g)"

definition lcg :: "(32 word, 32 word) stdlib" where
  "lcg = \<lparr>mt_default = 5489, mt_ctor = (\<lambda>s. s), mt_seed = (\<lambda>s g. s),
          mt_next = (\<lambda>g. (lcg_next g, lcg_next g)), mt_min = 0, mt_max = - 1,
          uniform_int_distribution = lcg_int, uniform_real_distribution = lcg_real,
          bernoulli_distribution = lcg_bernoulli\<rparr>"

text \<open>Two environments: one with no entropy source, one whose every call answers.\<close>

definition no_entropy :: env where
  "no_entropy = \<lparr>entropy = (\<lambda>k. None), calls = 0\<rparr>"

definition some_entropy :: env where
  "some_entropy = \<lparr>entropy = (\<lambda>k. Some (word_of_nat (1000 + k))), calls = 0\<rparr>"

section \<open>The lazy seeding\<close>

lemma ck_seed_not_needed:
  "seed_needed x = False \<Longrightarrow> ck_seed L (x, e) = (Inr (), x, e)"
  by (simp add: ck_seed_def)

lemma ck_seed_flag: "seed_needed (fst (snd (ck_seed L st))) = False"
  by (cases st) (simp add: ck_seed_def random_device_def split: option.splits)

lemma ck_seed_ready:
  "seed_ready st \<Longrightarrow> fst (ck_seed L st) = Inr ()"
  by (cases st) (auto simp: seed_ready_def ck_seed_def random_device_def split: option.splits)

lemma ck_seed_not_ready:
  "\<not> seed_ready st \<Longrightarrow> fst (ck_seed L st) = Inl Entropy_unavailable"
  by (cases st) (auto simp: seed_ready_def ck_seed_def random_device_def split: option.splits)

lemma ck_seed_cases:
  obtains (ok) x e where "seed_ready st" "ck_seed L st = (Inr (), x, e)"
  | (fail) "\<not> seed_ready st" "fst (ck_seed L st) = Inl Entropy_unavailable"
proof (cases "seed_ready st")
  case True
  then have "fst (ck_seed L st) = Inr ()" by (rule ck_seed_ready)
  then have "ck_seed L st = (Inr (), fst (snd (ck_seed L st)), snd (snd (ck_seed L st)))"
    by (cases "ck_seed L st") simp
  with True show ?thesis by (rule ok)
next
  case False
  then show ?thesis using ck_seed_not_ready fail by blast
qed

lemma ck_seed_idem: "ck_seed L (snd (ck_seed L st)) = (Inr (), snd (ck_seed L st))"
  using ck_seed_flag [of L st] by (cases "snd (ck_seed L st)") (simp add: ck_seed_not_needed)

section \<open>The example library meets the standard's promises\<close>

lemma lcg_int_ok: "uniform_int_ok lcg"
  by (simp add: uniform_int_ok_def lcg_def lcg_int_def Let_def)

lemma lcg_seed_ok: "seed_ok lcg"
  by (simp add: seed_ok_def lcg_def)

lemma ready_some_entropy: "seed_ready (x, some_entropy)"
  by (simp add: seed_ready_def some_entropy_def)

lemma unready_no_entropy: "\<not> seed_ready (GRand_default L, no_entropy)"
  by (simp add: seed_ready_def no_entropy_def GRand_default_def)

lemma ready_from: "seed_ready (GRand_from L s, e)"
  by (simp add: seed_ready_def GRand_from_def)

section \<open>Random integers\<close>

lemma sint_pred: "0 < sint (n :: 32 word) \<Longrightarrow> sint (n - 1) = sint n - 1"
proof -
  assume pos: "0 < sint n"
  have up: "sint n < 2 ^ 31" using sint_lt [of n] by simp
  have "sint (n - 1) = signed_take_bit 31 (sint n - 1)"
    by (simp add: sint_word_ariths)
  also have "\<dots> = sint n - 1"
    using pos up by (intro signed_take_bit_int_eq_self) auto
  finally show ?thesis .
qed

lemma call_unfold:
  "ck_seed L st = (Inr (), x, e) \<Longrightarrow>
   GRand_call L n st =
     (if sint n \<le> 0 then (Inr 0, x, e)
      else (Inr (fst (uniform_int_distribution L 0 (n - 1) (rng x))),
            x\<lparr>rng := snd (uniform_int_distribution L 0 (n - 1) (rng x))\<rparr>, e))"
  by (simp add: GRand_call_def split: prod.splits)

lemma call_fails:
  "fst (ck_seed L st) = Inl err \<Longrightarrow> GRand_call L n st = (Inl err, snd (ck_seed L st))"
  by (cases "ck_seed L st") (simp add: GRand_call_def)

lemma call_unsigned_unfold:
  "ck_seed L st = (Inr (), x, e) \<Longrightarrow>
   GRand_call_unsigned L n st =
     (if n = 0 then (Inr 0, x, e)
      else (Inr (fst (uniform_int_distribution L 0 (n - 1) (rng x))),
            x\<lparr>rng := snd (uniform_int_distribution L 0 (n - 1) (rng x))\<rparr>, e))"
  by (simp add: GRand_call_unsigned_def split: prod.splits)

lemma call_unsigned_fails:
  "fst (ck_seed L st) = Inl err \<Longrightarrow>
   GRand_call_unsigned L n st = (Inl err, snd (ck_seed L st))"
  by (cases "ck_seed L st") (simp add: GRand_call_unsigned_def)

text \<open>
  C1. \<^verbatim>\<open>i(n)\<close> returns 0 for every \<open>n \<le> 0\<close> and a value of \<open>{0, ..., n - 1}\<close> for
  every \<open>n > 0\<close>, given a \<^verbatim>\<open>uniform_int_distribution\<close> that stays within its bounds.
  The call returns a value exactly when its lazy seeding succeeds (no seed is pending, or
  the entropy source answers); every value it returns is as the claim says.
\<close>

theorem nextInt_range:
  assumes lib: "uniform_int_ok L"
  shows "(seed_ready st \<longrightarrow> (\<exists>v. fst (GRand_i L n st) = Inr v))
       \<and> (\<not> seed_ready st \<longrightarrow> fst (GRand_i L n st) = Inl Entropy_unavailable)
       \<and> (\<forall>v. fst (GRand_i L n st) = Inr v \<longrightarrow>
            (sint n \<le> 0 \<longrightarrow> v = 0) \<and> (0 < sint n \<longrightarrow> 0 \<le> sint v \<and> sint v \<le> sint n - 1))"
proof (cases rule: ck_seed_cases [of st L])
  case (ok x e)
  have "sint (0 :: 32 word) \<le> sint (n - 1) \<longrightarrow>
      sint (0 :: 32 word) \<le> sint (fst (uniform_int_distribution L 0 (n - 1) (rng x)))
      \<and> sint (fst (uniform_int_distribution L 0 (n - 1) (rng x))) \<le> sint (n - 1)"
    using lib unfolding uniform_int_ok_def by blast
  then show ?thesis
    using ok by (auto simp: GRand_i_def call_unfold sint_pred)
next
  case fail
  then show ?thesis by (simp add: GRand_i_def call_fails)
qed

theorem nextInt_range_witness:
  "uniform_int_ok lcg \<and> seed_ready (GRand_default lcg, some_entropy)
   \<and> fst (GRand_i lcg (- 3) (GRand_default lcg, some_entropy)) = Inr 0
   \<and> fst (GRand_i lcg 10 (GRand_default lcg, some_entropy)) = Inr 3
   \<and> sint (3 :: 32 word) \<le> sint (10 :: 32 word) - 1
   \<and> fst (GRand_i lcg 10 (GRand_default lcg, no_entropy)) = Inl Entropy_unavailable"
proof -
  have ten: "fst (GRand_i lcg 10 (GRand_default lcg, some_entropy)) = Inr 3"
    by (simp add: GRand_i_def GRand_call_def ck_seed_def GRand_default_def some_entropy_def
        random_device_def lcg_def lcg_int_def lcg_next_def Let_def)
  have neg: "sint (- 3 :: 32 word) \<le> 0" by simp
  show ?thesis
    using nextInt_range [OF lcg_int_ok, of "(GRand_default lcg, some_entropy)" "- 3"]
      nextInt_range [OF lcg_int_ok, of "(GRand_default lcg, some_entropy)" 10]
      nextInt_range [OF lcg_int_ok, of "(GRand_default lcg, no_entropy)" 10]
      ready_some_entropy [of "GRand_default lcg"] unready_no_entropy [of lcg] ten neg lcg_int_ok
    by auto
qed

section \<open>Random doubles\<close>

lemma d_fails:
  "fst (ck_seed L st) = Inl err \<Longrightarrow> GRand_d L d st = (Inl err, snd (ck_seed L st))"
  by (cases "ck_seed L st") (simp add: GRand_d_def)

lemma dlt_asym: "dlt d (Fin 0) \<Longrightarrow> \<not> dlt (Fin 0) d"
  by (cases d) auto

lemma d_pos:
  "ck_seed L st = (Inr (), x, e) \<Longrightarrow> dlt (Fin 0) d \<Longrightarrow>
   GRand_d L d st =
     (Inr (fst (uniform_real_distribution L (Fin 0) d (rng x))),
      x\<lparr>rng := snd (uniform_real_distribution L (Fin 0) d (rng x))\<rparr>, e)"
  by (simp add: GRand_d_def split: prod.splits)

lemma d_neg:
  "ck_seed L st = (Inr (), x, e) \<Longrightarrow> dlt d (Fin 0) \<Longrightarrow>
   GRand_d L d st =
     (Inr (dneg (fst (uniform_real_distribution L (Fin 0) (dneg d) (rng x)))),
      x\<lparr>rng := snd (uniform_real_distribution L (Fin 0) (dneg d) (rng x))\<rparr>, e)"
  by (simp add: GRand_d_def dlt_asym split: prod.splits)

lemma d_other:
  "ck_seed L st = (Inr (), x, e) \<Longrightarrow> \<not> dlt (Fin 0) d \<Longrightarrow> \<not> dlt d (Fin 0) \<Longrightarrow>
   GRand_d L d st = (Inr (Fin 0), x, e)"
  by (simp add: GRand_d_def)

lemma d_zero:
  "ck_seed L st = (Inr (), x, e) \<Longrightarrow> GRand_d L (Fin 0) st = (Inr (Fin 0), x, e)"
  by (simp add: GRand_d_def)

text \<open>
  C2. The claim has every value of \<^verbatim>\<open>d(bound)\<close> in \<open>[0, bound)\<close> for \<open>bound > 0\<close> and in
  \<open>(bound, 0]\<close> for \<open>bound < 0\<close>, as the comment above \<^verbatim>\<open>d\<close> does. The code does not see
  to it: for \<open>bound > 0\<close> it returns the sample of
  \<^verbatim>\<open>uniform_real_distribution(0.0, bound)\<close> as the library hands it over, for \<open>bound < 0\<close>
  the negation of the sample of \<^verbatim>\<open>uniform_real_distribution(0.0, -bound)\<close>, and 0.0
  otherwise, with no test of the sample against the bound. Where the library's sample
  is the bound itself or beyond, so is the value returned. At the bound \<open>+\<infinity>\<close> the
  sample \<open>u * (b - a) + a\<close> is \<open>+\<infinity>\<close>, which is not below the bound.
\<close>

theorem nextDouble_unguarded:
  "seed_ready st \<longrightarrow>
     (dlt (Fin 0) d \<longrightarrow>
        fst (GRand_d L d st)
          = Inr (fst (uniform_real_distribution L (Fin 0) d (rng (fst (snd (ck_seed L st)))))))
   \<and> (dlt d (Fin 0) \<longrightarrow>
        fst (GRand_d L d st)
          = Inr (dneg (fst (uniform_real_distribution L (Fin 0) (dneg d)
                   (rng (fst (snd (ck_seed L st))))))))
   \<and> (\<not> dlt (Fin 0) d \<and> \<not> dlt d (Fin 0) \<longrightarrow> fst (GRand_d L d st) = Inr (Fin 0))"
proof (cases rule: ck_seed_cases [of st L])
  case (ok x e)
  then show ?thesis by (simp add: d_pos d_neg d_other)
next
  case fail
  then show ?thesis by simp
qed

theorem nextDouble_unguarded_witness:
  "seed_ready (GRand_from lcg 7, no_entropy) \<and> dlt (Fin 0) PInf
   \<and> fst (GRand_d lcg PInf (GRand_from lcg 7, no_entropy)) = Inr PInf
   \<and> \<not> dlt PInf PInf"
proof -
  have ck: "ck_seed lcg (GRand_from lcg 7, no_entropy) = (Inr (), GRand_from lcg 7, no_entropy)"
    by (simp add: ck_seed_not_needed GRand_from_def)
  have g: "rng (GRand_from lcg 7) = 7" by (simp add: GRand_from_def lcg_def)
  have sample: "uniform_real_distribution lcg (Fin 0) PInf 7 = (PInf, 1025555898)"
    by (simp add: lcg_def lcg_real_def lcg_next_def lcg_unit_def)
  show ?thesis
    using nextDouble_unguarded [of "(GRand_from lcg 7, no_entropy)" PInf lcg]
      ready_from [of lcg 7 no_entropy]
    by (simp add: ck g sample)
qed

text \<open>
  C4, as the code has it. \<^verbatim>\<open>d(0.0)\<close> returns 0.0 and draws nothing from the engine: the
  state it leaves is the one its lazy seed check leaves. With no seed pending the object
  and the environment are unchanged; after one call, a further \<^verbatim>\<open>d(0.0)\<close> changes nothing.
\<close>

theorem nextDouble_zero:
  "(seed_ready st \<longrightarrow> fst (GRand_d L (Fin 0) st) = Inr (Fin 0))
   \<and> snd (GRand_d L (Fin 0) st) = snd (ck_seed L st)
   \<and> (seed_needed (fst st) = False \<longrightarrow> GRand_d L (Fin 0) st = (Inr (Fin 0), st))
   \<and> GRand_d L (Fin 0) (snd (GRand_d L (Fin 0) st)) = (Inr (Fin 0), snd (GRand_d L (Fin 0) st))"
proof -
  have s: "snd (GRand_d L (Fin 0) st') = snd (ck_seed L st')" for st'
    by (cases rule: ck_seed_cases [of st' L]) (simp_all add: d_zero d_fails)
  have r: "seed_ready st' \<Longrightarrow> fst (GRand_d L (Fin 0) st') = Inr (Fin 0)" for st'
    by (cases rule: ck_seed_cases [of st' L]) (simp_all add: d_zero)
  have n: "seed_needed (fst st) = False \<Longrightarrow> GRand_d L (Fin 0) st = (Inr (Fin 0), st)"
    by (cases st) (simp add: d_zero ck_seed_not_needed)
  have "GRand_d L (Fin 0) (snd (ck_seed L st)) = (Inr (Fin 0), snd (ck_seed L st))"
    using ck_seed_idem [of L st] by (cases "snd (ck_seed L st)") (simp add: d_zero)
  with s r n show ?thesis by simp
qed

theorem nextDouble_zero_witness:
  "seed_ready (GRand_default lcg, some_entropy)
   \<and> fst (GRand_d lcg (Fin 0) (GRand_default lcg, some_entropy)) = Inr (Fin 0)
   \<and> seed_needed (fst (GRand_from lcg 7, no_entropy)) = False
   \<and> GRand_d lcg (Fin 0) (GRand_from lcg 7, no_entropy) = (Inr (Fin 0), GRand_from lcg 7, no_entropy)"
  using nextDouble_zero [of "(GRand_default lcg, some_entropy)" lcg]
    nextDouble_zero [of "(GRand_from lcg 7, no_entropy)" lcg]
    ready_some_entropy [of "GRand_default lcg"]
  by (simp add: GRand_from_def)

text \<open>
  C4 as stated says that the engine is unchanged across the call. On a
  default-constructed object the first \<^verbatim>\<open>d(0.0)\<close> runs the lazy seeding: it reads the
  entropy source once and reseeds the engine.
\<close>

theorem nextDouble_zero_seeds:
  "rng (GRand_default lcg) = 5489
   \<and> rng (fst (snd (GRand_d lcg (Fin 0) (GRand_default lcg, some_entropy)))) = 1000
   \<and> calls some_entropy = 0
   \<and> calls (snd (snd (GRand_d lcg (Fin 0) (GRand_default lcg, some_entropy)))) = 1
   \<and> snd (GRand_d lcg (Fin 0) (GRand_default lcg, some_entropy)) \<noteq> (GRand_default lcg, some_entropy)"
  by (simp add: GRand_d_def ck_seed_def GRand_default_def some_entropy_def random_device_def
      lcg_def)

section \<open>Random booleans, raw words\<close>

lemma b_fails:
  "fst (ck_seed L st) = Inl err \<Longrightarrow> GRand_b L p st = (Inl err, snd (ck_seed L st))"
  by (cases "ck_seed L st") (simp add: GRand_b_def)

lemma b_unfold:
  "ck_seed L st = (Inr (), x, e) \<Longrightarrow>
   GRand_b L p st =
     (if dle p (Fin 0) then (Inr False, x, e)
      else if dle (Fin 1) p then (Inr True, x, e)
      else (Inr (fst (bernoulli_distribution L p (rng x))),
            x\<lparr>rng := snd (bernoulli_distribution L p (rng x))\<rparr>, e))"
  by (simp add: GRand_b_def split: prod.splits)

lemma call0_fails:
  "fst (ck_seed L st) = Inl err \<Longrightarrow> GRand_call0 L st = (Inl err, snd (ck_seed L st))"
  by (cases "ck_seed L st") (simp add: GRand_call0_def)

lemma call0_unfold:
  "ck_seed L st = (Inr (), x, e) \<Longrightarrow>
   GRand_call0 L st = (Inr (fst (mt_next L (rng x))), x\<lparr>rng := snd (mt_next L (rng x))\<rparr>, e)"
  by (simp add: GRand_call0_def split: prod.splits)

text \<open>
  C7, as the code has it. With \<open>p \<le> 0\<close> the call \<^verbatim>\<open>b(p)\<close> returns false and with
  \<open>p \<ge> 1\<close> true; in both cases nothing is drawn from the engine, the state left is the
  one the lazy seed check leaves, and with no seed pending the object and the environment
  are unchanged. With \<open>0 < p < 1\<close> the result is the sample of
  \<^verbatim>\<open>bernoulli_distribution(p)\<close> on the engine the lazy seed check leaves, and the engine
  is advanced by that draw.
\<close>

theorem nextBool_cases:
  "(dle p (Fin 0) \<longrightarrow>
      (seed_ready st \<longrightarrow> fst (GRand_b L p st) = Inr False)
      \<and> snd (GRand_b L p st) = snd (ck_seed L st)
      \<and> (seed_needed (fst st) = False \<longrightarrow> GRand_b L p st = (Inr False, st)))
   \<and> (dle (Fin 1) p \<longrightarrow>
      (seed_ready st \<longrightarrow> fst (GRand_b L p st) = Inr True)
      \<and> snd (GRand_b L p st) = snd (ck_seed L st)
      \<and> (seed_needed (fst st) = False \<longrightarrow> GRand_b L p st = (Inr True, st)))
   \<and> (dlt (Fin 0) p \<and> dlt p (Fin 1) \<and> seed_ready st \<longrightarrow>
      GRand_b L p st =
        (Inr (fst (bernoulli_distribution L p (rng (fst (snd (ck_seed L st)))))),
         (fst (snd (ck_seed L st)))
           \<lparr>rng := snd (bernoulli_distribution L p (rng (fst (snd (ck_seed L st)))))\<rparr>,
         snd (snd (ck_seed L st))))"
proof (cases rule: ck_seed_cases [of st L])
  case (ok x e)
  have "seed_needed (fst st) = False \<Longrightarrow> (x, e) = st"
    using ok(2) by (cases st) (simp add: ck_seed_not_needed)
  moreover have "dlt (Fin 0) p \<and> dlt p (Fin 1) \<Longrightarrow> \<not> dle p (Fin 0) \<and> \<not> dle (Fin 1) p"
    by (cases p) auto
  moreover have "dle (Fin 1) p \<Longrightarrow> \<not> dle p (Fin 0)"
    by (cases p) auto
  ultimately show ?thesis
    using ok by (auto simp: b_unfold)
next
  case fail
  then show ?thesis
    by (auto simp: b_fails seed_ready_def split: prod.splits)
qed

theorem nextBool_cases_witness:
  "dle (Fin (- 1)) (Fin 0) \<and> dle (Fin 1) (Fin 2) \<and> dlt (Fin 0) (Fin (1/2)) \<and> dlt (Fin (1/2)) (Fin 1)
   \<and> seed_ready (GRand_from lcg 7, no_entropy)
   \<and> GRand_b lcg (Fin (- 1)) (GRand_from lcg 7, no_entropy) = (Inr False, GRand_from lcg 7, no_entropy)
   \<and> GRand_b lcg (Fin 2) (GRand_from lcg 7, no_entropy) = (Inr True, GRand_from lcg 7, no_entropy)
   \<and> GRand_b lcg (Fin (1/2)) (GRand_from lcg 7, no_entropy)
       = (Inr True, (GRand_from lcg 7)\<lparr>rng := 1025555898\<rparr>, no_entropy)"
proof -
  have ck: "ck_seed lcg (GRand_from lcg 7, no_entropy) = (Inr (), GRand_from lcg 7, no_entropy)"
    by (simp add: ck_seed_not_needed GRand_from_def)
  have g: "rng (GRand_from lcg 7) = 7" by (simp add: GRand_from_def lcg_def)
  have bern: "bernoulli_distribution lcg (Fin (1/2)) 7 = (True, 1025555898)"
    by (simp add: lcg_def lcg_bernoulli_def lcg_next_def lcg_unit_def)
  have flag: "seed_needed (GRand_from lcg 7) = False" by (simp add: GRand_from_def)
  show ?thesis
    using nextBool_cases [of "Fin (- 1)" "(GRand_from lcg 7, no_entropy)" lcg]
      nextBool_cases [of "Fin 2" "(GRand_from lcg 7, no_entropy)" lcg]
      nextBool_cases [of "Fin (1/2)" "(GRand_from lcg 7, no_entropy)" lcg]
      ready_from [of lcg 7 no_entropy]
    by (simp add: ck g bern flag)
qed

text \<open>
  C7 as stated says that \<open>p \<le> 0\<close> and \<open>p \<ge> 1\<close> leave the engine unchanged. On a
  default-constructed object \<^verbatim>\<open>b(0.0)\<close> and \<^verbatim>\<open>b(1.0)\<close> run the lazy seeding first: one read
  of the entropy source, and the engine reseeded.
\<close>

theorem nextBool_zero_seeds:
  "rng (GRand_default lcg) = 5489
   \<and> rng (fst (snd (GRand_b lcg (Fin 0) (GRand_default lcg, some_entropy)))) = 1000
   \<and> calls some_entropy = 0
   \<and> calls (snd (snd (GRand_b lcg (Fin 0) (GRand_default lcg, some_entropy)))) = 1
   \<and> rng (fst (snd (GRand_b lcg (Fin 1) (GRand_default lcg, some_entropy)))) = 1000
   \<and> calls (snd (snd (GRand_b lcg (Fin 1) (GRand_default lcg, some_entropy)))) = 1"
  by (simp add: GRand_b_def ck_seed_def GRand_default_def some_entropy_def random_device_def
      lcg_def)

section \<open>Totality\<close>

text \<open>
  C9, as the code has it. \<^verbatim>\<open>seed()\<close> and \<^verbatim>\<open>seed(s)\<close> always return. A sampling call
  (\<^verbatim>\<open>i\<close>, \<^verbatim>\<open>d\<close>, \<^verbatim>\<open>b\<close>, \<^verbatim>\<open>operator()()\<close>, and \<^verbatim>\<open>operator()(n)\<close> at a signed or an
  unsigned integer type of any width) returns a value for every argument when its lazy
  seeding succeeds, and fails with the exception of \<^verbatim>\<open>random_device\<close> when a seed is
  pending and the entropy source does not answer. The degenerate arguments \<open>n \<le> 0\<close>,
  bound 0.0, \<open>p \<le> 0\<close> and \<open>p \<ge> 1\<close> give 0, 0.0, false and true. A negative bound gives no
  default: the value is the negation of the sample of
  \<^verbatim>\<open>uniform_real_distribution(0.0, -bound)\<close>.
\<close>

theorem operations_total:
  fixes L :: "('g, 32 word) stdlib" and K :: "('g, 'a::len word) stdlib"
  shows
  "fst (GRand_seed st) = Inr () \<and> fst (GRand_seed_with K s st) = Inr ()
   \<and> (seed_ready st \<longrightarrow>
        (\<exists>v. fst (GRand_i L n st) = Inr v)
      \<and> (\<exists>v. fst (GRand_call K m st) = Inr v)
      \<and> (\<exists>v. fst (GRand_call_unsigned K m st) = Inr v)
      \<and> (\<exists>v. fst (GRand_call0 K st) = Inr v)
      \<and> (\<exists>v. fst (GRand_d K d st) = Inr v)
      \<and> (\<exists>v. fst (GRand_b K p st) = Inr v)
      \<and> (sint n \<le> 0 \<longrightarrow> fst (GRand_i L n st) = Inr 0)
      \<and> (sint m \<le> 0 \<longrightarrow> fst (GRand_call K m st) = Inr 0)
      \<and> (m \<le> 0 \<longrightarrow> fst (GRand_call_unsigned K m st) = Inr 0)
      \<and> fst (GRand_d K (Fin 0) st) = Inr (Fin 0)
      \<and> (dlt d (Fin 0) \<longrightarrow>
           fst (GRand_d K d st)
             = Inr (dneg (fst (uniform_real_distribution K (Fin 0) (dneg d)
                      (rng (fst (snd (ck_seed K st))))))))
      \<and> (dle p (Fin 0) \<longrightarrow> fst (GRand_b K p st) = Inr False)
      \<and> (dle (Fin 1) p \<longrightarrow> fst (GRand_b K p st) = Inr True))
   \<and> (\<not> seed_ready st \<longrightarrow>
        fst (GRand_i L n st) = Inl Entropy_unavailable
      \<and> fst (GRand_call K m st) = Inl Entropy_unavailable
      \<and> fst (GRand_call_unsigned K m st) = Inl Entropy_unavailable
      \<and> fst (GRand_call0 K st) = Inl Entropy_unavailable
      \<and> fst (GRand_d K d st) = Inl Entropy_unavailable
      \<and> fst (GRand_b K p st) = Inl Entropy_unavailable)"
proof -
  have seeds: "fst (GRand_seed st) = Inr () \<and> fst (GRand_seed_with K s st) = Inr ()"
    by (cases st) (simp add: GRand_seed_def GRand_seed_with_def)
  have int: "(\<exists>v. fst (GRand_i L n st) = Inr v) \<and> (sint n \<le> 0 \<longrightarrow> fst (GRand_i L n st) = Inr 0)"
    if "seed_ready st"
    using that by (cases rule: ck_seed_cases [of st L]) (auto simp: GRand_i_def call_unfold)
  have int_fails: "fst (GRand_i L n st) = Inl Entropy_unavailable" if "\<not> seed_ready st"
    using that by (cases rule: ck_seed_cases [of st L]) (auto simp: GRand_i_def call_fails)
  have bb: "dle (Fin 1) p \<Longrightarrow> \<not> dle p (Fin 0)" by (cases p) auto
  show ?thesis
  proof (cases rule: ck_seed_cases [of st K])
    case (ok x e)
    have dd: "\<exists>v. fst (GRand_d K d st) = Inr v"
    proof (cases "dlt (Fin 0) d")
      case True
      then show ?thesis using ok by (simp add: d_pos)
    next
      case False
      then show ?thesis using ok by (cases "dlt d (Fin 0)") (simp_all add: d_neg d_other)
    qed
    show ?thesis
      using seeds ok int dd bb
      by (auto simp: call_unfold call_unsigned_unfold call0_unfold b_unfold d_zero d_neg)
  next
    case fail
    then show ?thesis
      using seeds int_fails
      by (simp add: call_fails call_unsigned_fails call0_fails d_fails b_fails)
  qed
qed

theorem operations_total_witness:
  "seed_ready (GRand_default lcg, some_entropy)
   \<and> (\<exists>v. fst (GRand_i lcg 10 (GRand_default lcg, some_entropy)) = Inr v)
   \<and> fst (GRand_i lcg (- 1) (GRand_default lcg, some_entropy)) = Inr 0
   \<and> fst (GRand_call_unsigned lcg 0 (GRand_default lcg, some_entropy)) = Inr 0
   \<and> (\<exists>v. fst (GRand_d lcg NInf (GRand_default lcg, some_entropy)) = Inr v)
   \<and> (\<exists>v. fst (GRand_b lcg NaN (GRand_default lcg, some_entropy)) = Inr v)
   \<and> fst (GRand_b lcg (Fin (- 1)) (GRand_default lcg, some_entropy)) = Inr False
   \<and> fst (GRand_b lcg PInf (GRand_default lcg, some_entropy)) = Inr True
   \<and> \<not> seed_ready (GRand_default lcg, no_entropy)
   \<and> fst (GRand_d lcg (Fin 3) (GRand_default lcg, no_entropy)) = Inl Entropy_unavailable"
proof -
  have "sint (- 1 :: 32 word) \<le> 0" by simp
  then show ?thesis
    using operations_total [of "(GRand_default lcg, some_entropy)" lcg 0 lcg 10 0 NInf NaN]
      operations_total [of "(GRand_default lcg, some_entropy)" lcg 0 lcg "- 1" 0 NInf "Fin (- 1)"]
      operations_total [of "(GRand_default lcg, some_entropy)" lcg 0 lcg 10 0 NInf PInf]
      operations_total [of "(GRand_default lcg, no_entropy)" lcg 0 lcg 10 0 "Fin 3" NaN]
      ready_some_entropy [of "GRand_default lcg"] unready_no_entropy [of lcg]
    by simp
qed

text \<open>
  C9 as stated says that no call ever fails and that a degenerate argument gives a
  default. A default-constructed object in an environment with no entropy source fails
  in its first sampling call, whatever the argument (the case the comment above
  \<^verbatim>\<open>ck_seed\<close> describes); and a negative bound gives the negated sample, not 0.0.
\<close>

theorem operations_fail:
  "fst (GRand_i lcg 0 (GRand_default lcg, no_entropy)) = Inl Entropy_unavailable
   \<and> fst (GRand_d lcg (Fin 0) (GRand_default lcg, no_entropy)) = Inl Entropy_unavailable
   \<and> fst (GRand_b lcg (Fin 2) (GRand_default lcg, no_entropy)) = Inl Entropy_unavailable
   \<and> fst (GRand_d lcg (Fin (- 2)) (GRand_from lcg 7, no_entropy))
       = Inr (Fin (- (1025555898 / 2147483648)))"
  by (simp add: GRand_i_def GRand_call_def GRand_d_def GRand_b_def ck_seed_def
      GRand_default_def GRand_from_def no_entropy_def random_device_def
      lcg_def lcg_real_def lcg_next_def lcg_unit_def)

section \<open>The flag after a sampling call\<close>

lemma call_flag: "seed_needed (fst (snd (GRand_call L n st))) = False"
  using ck_seed_flag [of L st]
  by (cases rule: ck_seed_cases [of st L]) (auto simp: call_unfold call_fails)

lemma d_flag: "seed_needed (fst (snd (GRand_d L d st))) = False"
  using ck_seed_flag [of L st]
  by (auto simp: GRand_d_def split: prod.splits sum.splits)

lemma b_flag: "seed_needed (fst (snd (GRand_b L p st))) = False"
  using ck_seed_flag [of L st]
  by (cases rule: ck_seed_cases [of st L]) (auto simp: b_unfold b_fails)

lemma call0_flag: "seed_needed (fst (snd (GRand_call0 L st))) = False"
  using ck_seed_flag [of L st]
  by (cases rule: ck_seed_cases [of st L]) (auto simp: call0_unfold call0_fails)


section \<open>Sequences of calls\<close>

lemma ret_snd: "snd (ret f r) = snd r"
  by (cases r) (auto simp: ret_def split: sum.splits)

lemma ret_fst: "fst (ret f r) = (case fst r of Inl err \<Rightarrow> Inl err | Inr v \<Rightarrow> Inr (f v))"
  by (cases r) (auto simp: ret_def split: sum.splits)

lemma step_sampling_env:
  "is_sampling c \<Longrightarrow> snd (snd (step L c st)) = snd (snd (ck_seed L st))"
proof (cases rule: ck_seed_cases [of st L])
  case (ok x e)
  assume "is_sampling c"
  then show ?thesis using ok(2)
    by (cases c)
      (auto simp: ret_snd GRand_i_def call_unfold call0_unfold b_unfold GRand_d_def
        split: sum.splits prod.splits)
next
  case fail
  assume "is_sampling c"
  then show ?thesis using fail(2)
    by (cases c) (simp_all add: ret_snd GRand_i_def call_fails call0_fails b_fails d_fails)
qed

lemma step_flag: "seed_needed (fst (snd (step L c st))) = (c = Seed)"
  by (cases c; cases st)
    (simp_all add: ret_snd GRand_seed_def GRand_seed_with_def GRand_i_def call_flag d_flag
      b_flag call0_flag)

lemma run_Cons_fst:
  "fst (run L (c # cs) st) = fst (step L c st) # fst (run L cs (snd (step L c st)))"
  by (simp split: prod.splits)

lemma run_Cons_snd: "snd (run L (c # cs) st) = snd (run L cs (snd (step L c st)))"
  by (simp split: prod.splits)

text \<open>With no seed pending, a call other than \<^verbatim>\<open>seed()\<close> does not look at the environment.\<close>

lemma step_frame:
  "seed_needed x = False \<Longrightarrow> c \<noteq> Seed \<Longrightarrow>
   step L c (x, e) = (fst (step L c (x, e0)), fst (snd (step L c (x, e0))), e)"
  by (cases c)
    (auto simp: ret_def GRand_seed_with_def GRand_i_def GRand_call_def GRand_d_def GRand_b_def
      GRand_call0_def ck_seed_not_needed split: sum.splits prod.splits)

lemma run_frame:
  "seed_needed x = False \<Longrightarrow> Seed \<notin> set ops \<Longrightarrow>
   run L ops (x, e) = (fst (run L ops (x, e0)), fst (snd (run L ops (x, e0))), e)"
proof (induction ops arbitrary: x)
  case Nil
  then show ?case by simp
next
  case (Cons c cs)
  have c: "c \<noteq> Seed" and cs: "Seed \<notin> set cs" using Cons.prems(2) by auto
  obtain r x' e' where s0: "step L c (x, e0) = (r, x', e')"
    by (cases "step L c (x, e0)") auto
  have s: "step L c (x, e) = (r, x', e)"
    using step_frame [OF Cons.prems(1) c, of L e e0] by (simp add: s0)
  have f: "seed_needed x' = False"
    using step_frame [OF Cons.prems(1) c, of L e0 e0] step_flag [of L c "(x, e0)"] c
    by (simp add: s0)
  have e': "e' = e0"
    using step_frame [OF Cons.prems(1) c, of L e0 e0] by (simp add: s0)
  obtain rs y e'' where r0: "run L cs (x', e0) = (rs, y, e'')"
    by (cases "run L cs (x', e0)") auto
  have r: "run L cs (x', e) = (rs, y, e)"
    using Cons.IH [OF f cs] by (simp add: r0)
  show ?case by (simp add: s s0 e' r r0)
qed

text \<open>
  C3. Two objects built from the same seed \<open>s\<close> and given the same calls in the same
  order return the same results and end in the same object state, in whatever
  environments they run: an explicitly seeded object never reads the entropy source. The
  calls are any but the no-argument \<^verbatim>\<open>seed()\<close>, which asks for an entropy seed.
\<close>

theorem seeded_runs_agree:
  assumes "Seed \<notin> set ops"
  shows "fst (run L ops (GRand_from L s, e1)) = fst (run L ops (GRand_from L s, e2))
       \<and> fst (snd (run L ops (GRand_from L s, e1))) = fst (snd (run L ops (GRand_from L s, e2)))
       \<and> snd (snd (run L ops (GRand_from L s, e1))) = e1"
proof -
  have f: "seed_needed (GRand_from L s) = False" by (simp add: GRand_from_def)
  show ?thesis
    using run_frame [OF f assms, of L e1 e2] by simp
qed

theorem seeded_runs_agree_witness:
  "Seed \<notin> set [I 10, D (Fin 3), B (Fin (1/2)), Call0]
   \<and> fst (run lcg [I 10, D (Fin 3), B (Fin (1/2)), Call0] (GRand_from lcg 7, no_entropy))
       = fst (run lcg [I 10, D (Fin 3), B (Fin (1/2)), Call0] (GRand_from lcg 7, some_entropy))
   \<and> fst (run lcg [I 10] (GRand_from lcg 7, no_entropy)) = [Inr (V_int 8)]"
proof -
  have "fst (run lcg [I 10] (GRand_from lcg 7, no_entropy)) = [Inr (V_int 8)]"
    by (simp add: ret_def GRand_i_def GRand_call_def ck_seed_def GRand_from_def lcg_def
        lcg_int_def lcg_next_def Let_def)
  then show ?thesis
    using seeded_runs_agree [of "[I 10, D (Fin 3), B (Fin (1/2)), Call0]" lcg 7 no_entropy
        some_entropy]
    by simp
qed

text \<open>
  C6. Given an engine whose \<^verbatim>\<open>seed(s)\<close> leaves the state its constructor builds from \<open>s\<close>
  (C++11 26.5.1.4, table 117), a default-constructed object that is given \<^verbatim>\<open>seed(s)\<close>
  before any sampling is the object constructed from \<open>s\<close>: every sequence of calls
  returns the same results on both and leaves them in the same state.
\<close>

theorem seed_after_default:
  assumes "seed_ok L"
  shows "snd (GRand_seed_with L s (GRand_default L, e)) = (GRand_from L s, e)
       \<and> run L ops (snd (GRand_seed_with L s (GRand_default L, e))) = run L ops (GRand_from L s, e)"
proof -
  have "mt_seed L (word_of_int s) (mt_default L) = mt_ctor L (word_of_int s)"
    using assms unfolding seed_ok_def by blast
  then have "snd (GRand_seed_with L s (GRand_default L, e)) = (GRand_from L s, e)"
    by (simp add: GRand_seed_with_def GRand_default_def GRand_from_def)
  then show ?thesis by simp
qed

theorem seed_after_default_witness:
  "seed_ok lcg
   \<and> snd (GRand_seed_with lcg 42 (GRand_default lcg, some_entropy)) = (GRand_from lcg 42, some_entropy)
   \<and> run lcg [I 10, Seed, B (Fin 0)] (snd (GRand_seed_with lcg 42 (GRand_default lcg, some_entropy)))
       = run lcg [I 10, Seed, B (Fin 0)] (GRand_from lcg 42, some_entropy)"
  using seed_after_default [OF lcg_seed_ok, of 42 some_entropy "[I 10, Seed, B (Fin 0)]"] lcg_seed_ok
  by simp

section \<open>Reads of the entropy source\<close>

lemma run_append_snd: "snd (run L (xs @ ys) st) = snd (run L ys (snd (run L xs st)))"
  by (induction xs arbitrary: st) (simp_all add: run_Cons_snd del: run.simps(2))

lemma seed_pending: "seed_needed x \<Longrightarrow> snd (step L Seed (x, e)) = (x, e)"
  by (cases x) (simp add: ret_def GRand_seed_def)

lemma run_seeds: "seed_needed x \<Longrightarrow> snd (run L (replicate k Seed) (x, e)) = (x, e)"
  by (induction k) (simp_all add: run_Cons_snd seed_pending del: run.simps(2) step.simps)

lemma ck_seed_pending:
  "seed_needed x \<Longrightarrow>
   ck_seed L (x, e) =
     (case entropy e (calls e) of
        None \<Rightarrow> (Inl Entropy_unavailable, x\<lparr>seed_needed := False\<rparr>, e\<lparr>calls := Suc (calls e)\<rparr>)
      | Some w \<Rightarrow> (Inr (), x\<lparr>seed_needed := False, rng := mt_seed L w (rng x)\<rparr>,
                   e\<lparr>calls := Suc (calls e)\<rparr>))"
  by (simp add: ck_seed_def random_device_def split: option.splits)

lemma ck_seed_calls:
  "calls (snd (snd (ck_seed L (x, e)))) = (if seed_needed x then Suc (calls e) else calls e)"
  by (simp add: ck_seed_def random_device_def split: option.splits)

lemma step_calls:
  "c \<noteq> Seed \<Longrightarrow>
   calls (snd (snd (step L c (x, e))))
     = (if seed_needed x \<and> is_sampling c then Suc (calls e) else calls e)"
proof (cases "is_sampling c")
  case True
  then show ?thesis by (simp add: step_sampling_env ck_seed_calls)
next
  case False
  assume "c \<noteq> Seed"
  with False show ?thesis
    by (cases c) (simp_all add: ret_snd GRand_seed_with_def)
qed

lemma run_calls_settled:
  "seed_needed x = False \<Longrightarrow> Seed \<notin> set ops \<Longrightarrow> snd (snd (run L ops (x, e))) = e"
  using run_frame [of x ops L e e] by (metis snd_conv)

lemma run_calls_first:
  assumes "c \<noteq> Seed" "Seed \<notin> set cs"
  shows "calls (snd (snd (run L (c # cs) (x, e))))
     = (if seed_needed x \<and> is_sampling c then Suc (calls e) else calls e)"
proof -
  obtain r x' e' where s: "step L c (x, e) = (r, x', e')"
    by (cases "step L c (x, e)") auto
  have f: "seed_needed x' = False"
    using step_flag [of L c "(x, e)"] assms(1) by (simp add: s)
  have "snd (snd (run L (c # cs) (x, e))) = snd (snd (run L cs (x', e')))"
    by (simp add: run_Cons_snd s del: run.simps(2))
  also have "\<dots> = e'" using run_calls_settled [OF f assms(2)] .
  finally show ?thesis
    using step_calls [OF assms(1), of L x e] by (simp add: s)
qed

text \<open>
  C5, as the code has it. From a state where a seed is pending (after the default
  constructor or \<^verbatim>\<open>seed()\<close>), further \<^verbatim>\<open>seed()\<close> calls change nothing; the first sampling
  call reads the entropy source exactly once, at its start, and reseeds the engine from
  the word read; no later call reads it again until the next \<^verbatim>\<open>seed()\<close>. Whatever the
  state, calls without a \<^verbatim>\<open>seed()\<close> among them read the entropy source at most once, and
  not at all when they start with an explicit \<^verbatim>\<open>seed(s)\<close>.
\<close>

theorem one_entropy_draw:
  "(seed_needed x \<and> is_sampling c \<and> Seed \<notin> set post \<longrightarrow>
      snd (run L (replicate k Seed) (x, e)) = (x, e)
      \<and> calls (snd (snd (run L (replicate k Seed @ [c]) (x, e)))) = Suc (calls e)
      \<and> calls (snd (snd (run L (replicate k Seed @ c # post) (x, e)))) = Suc (calls e)
      \<and> (\<forall>w. entropy e (calls e) = Some w \<longrightarrow>
            ck_seed L (x, e) = (Inr (), x\<lparr>seed_needed := False, rng := mt_seed L w (rng x)\<rparr>,
                                e\<lparr>calls := Suc (calls e)\<rparr>)))
   \<and> (Seed \<notin> set ops \<longrightarrow>
        calls e \<le> calls (snd (snd (run L ops (x, e))))
        \<and> calls (snd (snd (run L ops (x, e)))) \<le> Suc (calls e))
   \<and> (Seed \<notin> set ops \<longrightarrow> snd (snd (run L (Seed_with s # ops) (x, e))) = e)"
proof -
  have a: "calls (snd (snd (run L (replicate k Seed @ c # cs) (x, e)))) = Suc (calls e)"
    if "seed_needed x" "is_sampling c" "Seed \<notin> set cs" for cs
  proof -
    have "c \<noteq> Seed" using that(2) by auto
    then show ?thesis
      using that run_calls_first [of c cs L x e]
      by (simp add: run_append_snd run_seeds)
  qed
  have b: "calls e \<le> calls (snd (snd (run L ops (x, e))))
        \<and> calls (snd (snd (run L ops (x, e)))) \<le> Suc (calls e)" if "Seed \<notin> set ops"
  proof (cases ops)
    case Nil
    then show ?thesis by simp
  next
    case (Cons c cs)
    then have "c \<noteq> Seed" "Seed \<notin> set cs" using that by auto
    then show ?thesis using run_calls_first [of c cs L x e] Cons by (simp del: run.simps(2))
  qed
  have c: "snd (snd (run L (Seed_with s # ops) (x, e))) = e" if "Seed \<notin> set ops"
    using run_calls_settled [OF _ that, of "x\<lparr>seed_needed := False, rng := mt_seed L (word_of_int s) (rng x)\<rparr>" L e]
    by (simp add: run_Cons_snd ret_def GRand_seed_with_def del: run.simps(2))
  show ?thesis
    using a [of "[]"] a [of post] b c by (auto simp: run_seeds ck_seed_pending)
qed

theorem one_entropy_draw_witness:
  "seed_needed (GRand_default lcg) \<and> is_sampling (I 10) \<and> Seed \<notin> set [D (Fin 0), B (Fin 2)]
   \<and> calls (snd (snd (run lcg (replicate 2 Seed @ [I 10]) (GRand_default lcg, some_entropy)))) = 1
   \<and> calls (snd (snd (run lcg (replicate 2 Seed @ I 10 # [D (Fin 0), B (Fin 2)])
         (GRand_default lcg, some_entropy)))) = 1
   \<and> calls (snd (snd (run lcg [D (Fin 0), B (Fin 2)] (GRand_default lcg, some_entropy)))) \<le> 1
   \<and> snd (snd (run lcg (Seed_with 42 # [D (Fin 0), B (Fin 2)]) (GRand_default lcg, some_entropy)))
       = some_entropy"
proof -
  have "seed_needed (GRand_default lcg)" "calls some_entropy = 0"
    by (simp_all add: GRand_default_def some_entropy_def)
  then show ?thesis
    using one_entropy_draw [where x = "GRand_default lcg" and c = "I 10"
        and post = "[D (Fin 0), B (Fin 2)]" and L = lcg and k = 2 and e = some_entropy
        and ops = "[D (Fin 0), B (Fin 2)]" and s = 42]
    by (simp del: run.simps(2))
qed

text \<open>
  C5 as stated has exactly one nondeterministic seeding between a construction without
  seed and the first sampling call. When \<^verbatim>\<open>seed(42)\<close> comes between the two there is
  none: the entropy source is never read.
\<close>

theorem explicit_seed_no_draw:
  "seed_needed (GRand_default lcg) = True \<and> calls some_entropy = 0
   \<and> calls (snd (snd (run lcg [Seed_with 42, I 10] (GRand_default lcg, some_entropy)))) = 0
   \<and> fst (run lcg [Seed_with 42, I 10] (GRand_default lcg, some_entropy)) = [Inr V_unit, Inr (V_int 3)]"
  by (simp add: ret_def GRand_seed_with_def GRand_i_def GRand_call_def ck_seed_def
      GRand_default_def some_entropy_def lcg_def lcg_int_def lcg_next_def
      Let_def)

section \<open>The flag and the engine in every reachable state\<close>

lemma run_flag:
  "seed_needed (fst (snd (run L ops st)))
     = (if ops = [] then seed_needed (fst st) else last ops = Seed)"
proof (induction ops arbitrary: st)
  case Nil
  then show ?case by simp
next
  case (Cons c cs)
  show ?case
    using Cons.IH [of "snd (step L c st)"] step_flag [of L c st]
    by (simp add: run_Cons_snd del: run.simps(2))
qed

lemma ck_seed_seeded:
  "seed_needed x \<or> seeded L (rng x) \<Longrightarrow> ck_seed L (x, e) = (Inr (), x', e') \<Longrightarrow>
   seeded L (rng x')"
  by (auto simp: ck_seed_def random_device_def seeded_seed split: if_splits option.splits)

lemma step_fails:
  "is_sampling c \<Longrightarrow> fst (ck_seed L st) = Inl err \<Longrightarrow> fst (step L c st) = Inl err"
  by (cases c) (simp_all add: ret_fst GRand_i_def call_fails d_fails b_fails call0_fails)

lemma step_seeded:
  assumes c: "is_sampling c" and ck: "ck_seed L st = (Inr (), x, e)"
    and g: "seeded L (rng x)"
  shows "seeded L (rng (fst (snd (step L c st))))"
  using c ck g
  by (cases c)
    (auto simp: ret_snd GRand_i_def call_unfold call0_unfold b_unfold GRand_d_def
      split_beta intro: seeded.intros)

lemma step_inv:
  assumes inv: "seed_needed x \<or> seeded L (rng x)"
    and ok: "fst (step L c (x, e)) \<noteq> Inl Entropy_unavailable"
  shows "seed_needed (fst (snd (step L c (x, e)))) \<or> seeded L (rng (fst (snd (step L c (x, e)))))"
proof (cases "is_sampling c")
  case True
  show ?thesis
  proof (cases rule: ck_seed_cases [of "(x, e)" L])
    case (ok x' e')
    then show ?thesis using step_seeded [OF True ok(2)] ck_seed_seeded [OF inv ok(2)] by simp
  next
    case fail
    then show ?thesis using step_fails [OF True fail(2)] assms(2) by simp
  qed
next
  case False
  then show ?thesis
    by (cases c) (simp_all add: ret_snd GRand_seed_def GRand_seed_with_def seeded_seed)
qed

lemma run_inv:
  "seed_needed x \<or> seeded L (rng x) \<Longrightarrow>
   Inl Entropy_unavailable \<notin> set (fst (run L ops (x, e))) \<Longrightarrow>
   seed_needed (fst (snd (run L ops (x, e)))) \<or> seeded L (rng (fst (snd (run L ops (x, e)))))"
proof (induction ops arbitrary: x e)
  case Nil
  then show ?case by simp
next
  case (Cons c cs)
  obtain x' e' where s: "snd (step L c (x, e)) = (x', e')"
    by (cases "snd (step L c (x, e))") auto
  have ok: "fst (step L c (x, e)) \<noteq> Inl Entropy_unavailable"
    and rest: "Inl Entropy_unavailable \<notin> set (fst (run L cs (x', e')))"
    using Cons.prems(2) by (auto simp: run_Cons_fst s simp del: run.simps(2))
  have "seed_needed x' \<or> seeded L (rng x')"
    using step_inv [OF Cons.prems(1) ok] by (simp add: s)
  then show ?case
    using Cons.IH [OF _ rest] by (simp add: run_Cons_snd s del: run.simps(2))
qed

text \<open>
  C8, as the code has it. In a state reached from either constructor by any calls, none
  of which failed for want of entropy: the flag is true exactly when the object was
  constructed without seed and nothing was called since, or the last call was
  \<^verbatim>\<open>seed()\<close> (an explicit \<^verbatim>\<open>seed(s)\<close> and every sampling call clear it); and the engine a
  sampling call draws its output from, the one its lazy seed check leaves, is seeded.
\<close>

theorem flag_and_seeding:
  assumes init: "x0 = GRand_default L \<or> x0 = GRand_from L s"
    and ok: "Inl Entropy_unavailable \<notin> set (fst (run L ops (x0, e)))"
  shows "(seed_needed (fst (snd (run L ops (x0, e))))
          \<longleftrightarrow> (ops = [] \<and> x0 = GRand_default L) \<or> (ops \<noteq> [] \<and> last ops = Seed))
       \<and> (\<forall>x' e'. ck_seed L (snd (run L ops (x0, e))) = (Inr (), x', e') \<longrightarrow> seeded L (rng x'))
       \<and> (\<forall>c v. is_sampling c \<and> fst (step L c (snd (run L ops (x0, e)))) = Inr v \<longrightarrow>
             seeded L (rng (fst (snd (ck_seed L (snd (run L ops (x0, e))))))))"
proof -
  let ?st = "snd (run L ops (x0, e))"
  have first: "seed_needed x0 \<longleftrightarrow> x0 = GRand_default L"
    using init by (auto simp: GRand_default_def GRand_from_def)
  have inv0: "seed_needed x0 \<or> seeded L (rng x0)"
    using init by (auto simp: GRand_default_def GRand_from_def seeded_ctor)
  have inv: "seed_needed (fst ?st) \<or> seeded L (rng (fst ?st))"
    using run_inv [OF inv0 ok] .
  have flag: "seed_needed (fst ?st) \<longleftrightarrow> (ops = [] \<and> x0 = GRand_default L) \<or> (ops \<noteq> [] \<and> last ops = Seed)"
    using run_flag [of L ops "(x0, e)"] first by auto
  have ck: "seeded L (rng x')" if "ck_seed L ?st = (Inr (), x', e')" for x' e'
    using ck_seed_seeded [of "fst ?st" L "snd ?st" x' e'] inv that by simp
  have out: "seeded L (rng (fst (snd (ck_seed L ?st))))"
    if "is_sampling c" "fst (step L c ?st) = Inr v" for c v
  proof (cases rule: ck_seed_cases [of ?st L])
    case (ok x' e')
    then show ?thesis using ck by simp
  next
    case fail
    then show ?thesis using step_fails [OF that(1) fail(2)] that(2) by simp
  qed
  show ?thesis using flag ck out by blast
qed

theorem flag_and_seeding_witness:
  "Inl Entropy_unavailable \<notin> set (fst (run lcg [I 10, Seed] (GRand_default lcg, some_entropy)))
   \<and> seed_needed (fst (snd (run lcg [I 10, Seed] (GRand_default lcg, some_entropy))))
   \<and> fst (ck_seed lcg (snd (run lcg [I 10, Seed] (GRand_default lcg, some_entropy)))) = Inr ()
   \<and> seeded lcg (rng (fst (snd (ck_seed lcg
         (snd (run lcg [I 10, Seed] (GRand_default lcg, some_entropy)))))))"
proof -
  let ?st = "snd (run lcg [I 10, Seed] (GRand_default lcg, some_entropy))"
  have r: "run lcg [I 10, Seed] (GRand_default lcg, some_entropy)
      = ([Inr (V_int 3), Inr V_unit], \<lparr>seed_needed = True, rng = 2678429223\<rparr>,
         some_entropy\<lparr>calls := 1\<rparr>)"
    by (simp add: ret_def GRand_i_def GRand_call_def GRand_seed_def ck_seed_def
        random_device_def GRand_default_def some_entropy_def lcg_def
        lcg_int_def lcg_next_def Let_def)
  have ok: "Inl Entropy_unavailable \<notin> set (fst (run lcg [I 10, Seed] (GRand_default lcg, some_entropy)))"
    by (simp add: r del: run.simps(2))
  have "seed_ready ?st"
    unfolding r by (simp add: seed_ready_def some_entropy_def)
  then have ck1: "fst (ck_seed lcg ?st) = Inr ()" by (rule ck_seed_ready)
  then have ck: "ck_seed lcg ?st = (Inr (), fst (snd (ck_seed lcg ?st)), snd (snd (ck_seed lcg ?st)))"
    by (metis prod.collapse)
  have init: "GRand_default lcg = GRand_default lcg \<or> GRand_default lcg = GRand_from lcg 0"
    by simp
  note th = flag_and_seeding [OF init ok]
  have "\<forall>x' e'. ck_seed lcg ?st = (Inr (), x', e') \<longrightarrow> seeded lcg (rng x')"
    using th by blast
  then have engine: "seeded lcg (rng (fst (snd (ck_seed lcg ?st))))"
    using ck by blast
  have "seed_needed (fst ?st) \<longleftrightarrow>
      ([I 10, Seed] = [] \<and> GRand_default lcg = GRand_default lcg)
      \<or> ([I 10, Seed] \<noteq> [] \<and> last [I 10, Seed] = Seed)"
    using th by blast
  then have flag: "seed_needed (fst ?st)" by simp
  show ?thesis using ok flag ck1 engine by blast
qed

text \<open>
  C8 as stated has the flag true exactly when no explicit seed was applied since the
  construction or the last \<^verbatim>\<open>seed()\<close>. After a default construction and one sampling
  call no explicit seed was applied, and the flag is false. And where the entropy source
  fails, \<^verbatim>\<open>ck_seed\<close> has already cleared the flag: a client that catches the exception
  and samples again gets its output from the engine in its default state.
\<close>

theorem flag_cleared_by_sampling:
  "seed_needed (GRand_default lcg)
   \<and> \<not> list_ex is_seed_with [I 10]
   \<and> \<not> seed_needed (fst (snd (run lcg [I 10] (GRand_default lcg, some_entropy))))
   \<and> fst (run lcg [I 10] (GRand_default lcg, some_entropy)) = [Inr (V_int 3)]
   \<and> fst (run lcg [I 10, I 10] (GRand_default lcg, no_entropy))
       = [Inl Entropy_unavailable, Inr (V_int 6)]
   \<and> rng (fst (snd (run lcg [I 10] (GRand_default lcg, no_entropy)))) = mt_default lcg"
  by (simp add: ret_def GRand_i_def GRand_call_def ck_seed_def random_device_def
      GRand_default_def some_entropy_def no_entropy_def lcg_def lcg_int_def
      lcg_next_def Let_def)

end
